theory Spec2Isabelle
  imports Main "HOL-Library.AList" "HOL-Library.List_Lexorder" "HOL-Library.Word"
begin

section \<open>Python values\<close>

text \<open>
  The attributes of the stored objects and the members of a JSON request body are
  Python values. The model keeps the scalar ones: \<open>None\<close>, booleans, integers and
  strings, and the \<open>datetime\<close> objects that \<open>Base\<close> stores as timestamps. Floats and
  nested lists and objects are not part of the model. A Python \<open>str\<close> is a
  \<^typ>\<open>string\<close>.

  A naive \<open>datetime\<close> is the tuple of its fields, as in Python.
\<close>

record datetime =
  year :: nat
  month :: nat
  day :: nat
  hour :: nat
  minute :: nat
  second :: nat
  microsecond :: nat

datatype pyval =
  PNone
  | PBool bool
  | PInt int
  | PStr string
  | PDatetime datetime

text \<open>Truth value testing (\<open>if v\<close>, \<open>not v\<close>, \<open>a or b\<close>).\<close>

fun truthy :: "pyval \<Rightarrow> bool" where
  "truthy PNone = False"
| "truthy (PBool b) = b"
| "truthy (PInt i) = (i \<noteq> 0)"
| "truthy (PStr s) = (s \<noteq> [])"
| "truthy (PDatetime d) = True"

text \<open>\<open>a or b\<close> yields \<open>a\<close> when it is true and \<open>b\<close> otherwise.\<close>

definition py_or :: "pyval \<Rightarrow> pyval \<Rightarrow> pyval" where
  "py_or a b = (if truthy a then a else b)"

text \<open>\<open>isinstance(v, str)\<close>.\<close>

fun is_str :: "pyval \<Rightarrow> bool" where
  "is_str (PStr s) = True"
| "is_str v = False"

text \<open>
  \<open>a == b\<close>. \<open>bool\<close> is a subclass of \<open>int\<close>, so \<open>True == 1\<close> and \<open>False == 0\<close>; values
  of unrelated types are unequal.
\<close>

definition int_of_bool :: "bool \<Rightarrow> int" where
  "int_of_bool b = (if b then 1 else 0)"

fun py_eq :: "pyval \<Rightarrow> pyval \<Rightarrow> bool" where
  "py_eq PNone PNone = True"
| "py_eq (PBool a) (PBool b) = (a = b)"
| "py_eq (PBool a) (PInt j) = (int_of_bool a = j)"
| "py_eq (PInt i) (PBool b) = (i = int_of_bool b)"
| "py_eq (PInt i) (PInt j) = (i = j)"
| "py_eq (PStr s) (PStr t) = (s = t)"
| "py_eq (PDatetime d) (PDatetime e) = (d = e)"
| "py_eq a b = False"

text \<open>
  A \<open>dict\<close> with string keys keeps its items in insertion order: an association list
  whose keys are distinct. \<open>d[k] = v\<close> is \<^const>\<open>AList.update\<close> (overwrite in place, or
  append), \<open>del d[k]\<close> is \<^const>\<open>AList.delete\<close>, \<open>d.get(k)\<close> is \<open>dict_get\<close> and \<open>k in d\<close>
  is \<open>dict_has\<close>.
\<close>

type_synonym pydict = "(string \<times> pyval) list"

definition dict_get :: "pydict \<Rightarrow> string \<Rightarrow> pyval" where
  "dict_get d k = (case map_of d k of None \<Rightarrow> PNone | Some v \<Rightarrow> v)"

definition dict_has :: "(string \<times> 'v) list \<Rightarrow> string \<Rightarrow> bool" where
  "dict_has d k = (map_of d k \<noteq> None)"

text \<open>The exceptions the modelled code can raise, with the message where one is read.\<close>

datatype error =
  ValueError string
  | TypeError
  | AttributeError string
  | Unmodelled string

section \<open>The User entity\<close>

text \<open>
  \<open>Base.__init__\<close> sets \<open>id\<close>, \<open>created_at\<close> and \<open>updated_at\<close>; \<open>User.__init__\<close> adds
  \<open>email\<close>, \<open>_password\<close>, \<open>first_name\<close> and \<open>last_name\<close>. The field \<open>obj_id\<close> is the
  attribute \<open>id\<close> and \<open>u_password\<close> is the attribute \<open>_password\<close>. Both User modules
  (Basic authentication and Session authentication) have these attributes.
\<close>

record base =
  obj_id :: string
  created_at :: datetime
  updated_at :: datetime

record user = base +
  email :: pyval
  u_password :: pyval
  first_name :: pyval
  last_name :: pyval

subsection \<open>Password digest\<close>

text \<open>
  \<open>hashlib.sha256(pwd.encode()).hexdigest().lower()\<close>. The digest primitive itself
  (UTF-8 encoding followed by SHA-256, giving the digest bytes) is the parameter
  \<open>H\<close>; \<open>hexdigest\<close> writes each byte as two lower-case hexadecimal digits and
  \<open>lower\<close> maps the ASCII capitals to small letters.
\<close>

type_synonym byte = "8 word"

definition hex_digit :: "nat \<Rightarrow> char" where
  "hex_digit n = ''0123456789abcdef'' ! (n mod 16)"

definition hex_byte :: "byte \<Rightarrow> string" where
  "hex_byte b = [hex_digit (unat b div 16), hex_digit (unat b mod 16)]"

definition hexdigest :: "byte list \<Rightarrow> string" where
  "hexdigest bs = concat (map hex_byte bs)"

definition lower_char :: "char \<Rightarrow> char" where
  "lower_char c =
     (let n = (of_char c :: nat) in if 65 \<le> n \<and> n \<le> 90 then char_of (n + 32) else c)"

definition lower :: "string \<Rightarrow> string" where
  "lower s = map lower_char s"

definition hash_password :: "(string \<Rightarrow> byte list) \<Rightarrow> string \<Rightarrow> string" where
  "hash_password H pwd = lower (hexdigest (H pwd))"

text \<open>Session authentication, \<open>models/user.py\<close>: the \<open>password\<close> setter.\<close>

definition password_setter :: "(string \<Rightarrow> byte list) \<Rightarrow> user \<Rightarrow> pyval \<Rightarrow> user" where
  "password_setter H self pwd =
     (if is_str pwd
      then (case pwd of PStr s \<Rightarrow> self\<lparr>u_password := PStr (hash_password H s)\<rparr> | _ \<Rightarrow> self)
      else self\<lparr>u_password := PNone\<rparr>)"

text \<open>Session authentication: \<open>is_valid_password\<close>; \<open>self.password\<close> reads \<open>_password\<close>.\<close>

definition is_valid_password :: "(string \<Rightarrow> byte list) \<Rightarrow> user \<Rightarrow> pyval \<Rightarrow> bool" where
  "is_valid_password H self pwd =
     (if \<not> is_str pwd \<or> u_password self = PNone then False
      else (case pwd of
              PStr s \<Rightarrow> py_eq (PStr (hash_password H s)) (u_password self)
            | _ \<Rightarrow> False))"

text \<open>
  Basic authentication, \<open>models/user.py\<close>: the same two operations, written with the
  helper \<open>_hash_password\<close>.
\<close>

definition password_setter_basic :: "(string \<Rightarrow> byte list) \<Rightarrow> user \<Rightarrow> pyval \<Rightarrow> user" where
  "password_setter_basic H self pwd =
     self\<lparr>u_password :=
       (case pwd of PStr s \<Rightarrow> PStr (hash_password H s) | _ \<Rightarrow> PNone)\<rparr>"

definition is_valid_password_basic :: "(string \<Rightarrow> byte list) \<Rightarrow> user \<Rightarrow> pyval \<Rightarrow> bool" where
  "is_valid_password_basic H self pwd =
     (if \<not> is_str pwd \<or> u_password self = PNone then False
      else (case pwd of
              PStr s \<Rightarrow> py_eq (PStr (hash_password H s)) (u_password self)
            | _ \<Rightarrow> False))"

subsection \<open>Display name\<close>

text \<open>
  The f-string \<open>f"{self.first_name} {self.last_name}"\<close> formats both values with
  \<open>format\<close>; \<open>fmt\<close> stands for that built-in (the identity on a \<open>str\<close>).

  Basic authentication:
  \<^verbatim>\<open>
  if self.first_name and self.last_name:
      return f"{self.first_name} {self.last_name}"
  return (self.first_name or self.last_name or self.email or "")
  \<close>
\<close>

definition display_name_basic :: "(pyval \<Rightarrow> string) \<Rightarrow> user \<Rightarrow> pyval" where
  "display_name_basic fmt self =
     (if truthy (first_name self) \<and> truthy (last_name self)
      then PStr (fmt (first_name self) @ '' '' @ fmt (last_name self))
      else py_or (first_name self) (py_or (last_name self) (py_or (email self) (PStr ''''))))"

text \<open>
  Session authentication:
  \<^verbatim>\<open>
  if self.email and not self.first_name and not self.last_name:
      return self.email
  if self.first_name and not self.last_name:
      return self.first_name
  if self.last_name and not self.first_name:
      return self.last_name
  if self.first_name and self.last_name:
      return f"{self.first_name} {self.last_name}"
  return ""
  \<close>
\<close>

definition display_name :: "(pyval \<Rightarrow> string) \<Rightarrow> user \<Rightarrow> pyval" where
  "display_name fmt self =
     (if truthy (email self) \<and> \<not> truthy (first_name self) \<and> \<not> truthy (last_name self)
      then email self
      else if truthy (first_name self) \<and> \<not> truthy (last_name self)
      then first_name self
      else if truthy (last_name self) \<and> \<not> truthy (first_name self)
      then last_name self
      else if truthy (first_name self) \<and> truthy (last_name self)
      then PStr (fmt (first_name self) @ '' '' @ fmt (last_name self))
      else PStr '''')"

section \<open>Timestamps\<close>

text \<open>
  \<open>TIMESTAMP_FORMAT = "%Y-%m-%dT%H:%M:%S"\<close>. \<open>datetime.strftime\<close> hands the format to
  the \<open>strftime\<close> of the C library: \<open>%Y\<close> writes the year as a decimal number without
  padding (a year below 1000 has fewer than four digits), every other field is
  written with two digits, and the microseconds are not written.
\<close>

definition digit_char :: "nat \<Rightarrow> char" where
  "digit_char n = char_of (48 + n mod 10)"

definition pad2 :: "nat \<Rightarrow> string" where
  "pad2 n = [digit_char (n div 10), digit_char n]"

function show_nat :: "nat \<Rightarrow> string" where
  "show_nat n = (if n < 10 then [digit_char n] else show_nat (n div 10) @ [digit_char n])"
  by pat_completeness auto
termination
  by (relation "measure id") auto

declare show_nat.simps [simp del]

definition strftime :: "datetime \<Rightarrow> string" where
  "strftime d =
     show_nat (year d) @ ''-'' @ pad2 (month d) @ ''-'' @ pad2 (day d) @ ''T'' @
     pad2 (hour d) @ '':'' @ pad2 (minute d) @ '':'' @ pad2 (second d)"

text \<open>
  \<open>datetime.strptime(s, TIMESTAMP_FORMAT)\<close>. The library matches the text against
  \<^verbatim>\<open>(\d\d\d\d)-(1[0-2]|0[1-9]|[1-9])-(3[0-1]|[1-2]\d|0[1-9]|[1-9]| [1-9])T\<close>
  \<^verbatim>\<open>(2[0-3]|[0-1]\d|\d):([0-5]\d|\d):(6[0-1]|[0-5]\d|\d)\<close>
  ignoring case, requires the whole text to be consumed and then builds the
  \<open>datetime\<close>, which checks the calendar. Every failure is a \<open>ValueError\<close>.
\<close>

definition is_digit :: "char \<Rightarrow> bool" where
  "is_digit c = (let n = (of_char c :: nat) in 48 \<le> n \<and> n \<le> 57)"

definition digit_val :: "char \<Rightarrow> nat" where
  "digit_val c = of_char c - 48"

definition decimal :: "string \<Rightarrow> nat" where
  "decimal s = foldl (\<lambda>a c. 10 * a + digit_val c) 0 s"

fun split_at :: "(char \<Rightarrow> bool) \<Rightarrow> string \<Rightarrow> (string \<times> string) option" where
  "split_at sep [] = None"
| "split_at sep (c # cs) =
     (if sep c then Some ([], cs)
      else (case split_at sep cs of None \<Rightarrow> None | Some (a, b) \<Rightarrow> Some (c # a, b)))"

definition year_field :: "string \<Rightarrow> nat option" where
  "year_field s = (if length s = 4 \<and> list_all is_digit s then Some (decimal s) else None)"

definition num_field :: "nat \<Rightarrow> nat \<Rightarrow> string \<Rightarrow> nat option" where
  "num_field lo hi s =
     (if (length s = 1 \<or> length s = 2) \<and> list_all is_digit s \<and> lo \<le> decimal s \<and> decimal s \<le> hi
      then Some (decimal s) else None)"

definition day_field :: "string \<Rightarrow> nat option" where
  "day_field s =
     (if length s = 2 \<and> hd s = CHR '' '' \<and> is_digit (last s) \<and> last s \<noteq> CHR ''0''
      then Some (digit_val (last s)) else num_field 1 31 s)"

definition is_leap :: "nat \<Rightarrow> bool" where
  "is_leap y = (y mod 4 = 0 \<and> (y mod 100 \<noteq> 0 \<or> y mod 400 = 0))"

definition days_in_month :: "nat \<Rightarrow> nat \<Rightarrow> nat" where
  "days_in_month y m =
     (if m = 2 then (if is_leap y then 29 else 28)
      else if m = 4 \<or> m = 6 \<or> m = 9 \<or> m = 11 then 30 else 31)"

text \<open>The invariant of every \<open>datetime\<close> object (the constructor raises otherwise).\<close>

definition dt_valid :: "datetime \<Rightarrow> bool" where
  "dt_valid d =
     (1 \<le> year d \<and> year d \<le> 9999 \<and> 1 \<le> month d \<and> month d \<le> 12 \<and>
      1 \<le> day d \<and> day d \<le> days_in_month (year d) (month d) \<and>
      hour d < 24 \<and> minute d < 60 \<and> second d < 60 \<and> microsecond d < 1000000)"

definition time_data_error :: error where
  "time_data_error = ValueError ''time data does not match format''"

definition strptime :: "string \<Rightarrow> error + datetime" where
  "strptime s =
     (case split_at (\<lambda>c. c = CHR ''-'') s of None \<Rightarrow> Inl time_data_error
      | Some (ys, s1) \<Rightarrow>
     (case split_at (\<lambda>c. c = CHR ''-'') s1 of None \<Rightarrow> Inl time_data_error
      | Some (ms, s2) \<Rightarrow>
     (case split_at (\<lambda>c. c = CHR ''T'' \<or> c = CHR ''t'') s2 of None \<Rightarrow> Inl time_data_error
      | Some (ds, s3) \<Rightarrow>
     (case split_at (\<lambda>c. c = CHR '':'') s3 of None \<Rightarrow> Inl time_data_error
      | Some (hs, s4) \<Rightarrow>
     (case split_at (\<lambda>c. c = CHR '':'') s4 of None \<Rightarrow> Inl time_data_error
      | Some (mins, secs) \<Rightarrow>
     (case (year_field ys, num_field 1 12 ms, day_field ds,
            num_field 0 23 hs, num_field 0 59 mins, num_field 0 61 secs) of
        (Some y, Some m, Some d, Some h, Some mi, Some se) \<Rightarrow>
          (let t = \<lparr>year = y, month = m, day = d, hour = h, minute = mi, second = se,
                    microsecond = 0\<rparr>
           in if dt_valid t then Inr t else Inl time_data_error)
      | _ \<Rightarrow> Inl time_data_error))))))"

text \<open>
  Comparison of two naive \<open>datetime\<close>s is the lexicographic comparison of their
  fields.
\<close>

definition dt_key :: "datetime \<Rightarrow> nat list" where
  "dt_key d = [year d, month d, day d, hour d, minute d, second d, microsecond d]"

definition dt_le :: "datetime \<Rightarrow> datetime \<Rightarrow> bool" where
  "dt_le a b = (dt_key a \<le> dt_key b)"

section \<open>The object store (\<open>Base\<close>, Session authentication)\<close>

text \<open>
  What a constructor call reads from its surroundings: the value of
  \<open>str(uuid.uuid4())\<close> and the two readings of \<open>datetime.utcnow()\<close> that
  \<open>_parse_datetime\<close> takes for an absent \<open>created_at\<close> and \<open>updated_at\<close>.
\<close>

record env =
  uuid4 :: string
  utcnow_created :: datetime
  utcnow_updated :: datetime

text \<open>
  \<^verbatim>\<open>
  def _parse_datetime(self, date_str):
      if date_str:
          return datetime.strptime(date_str, TIMESTAMP_FORMAT)
      return datetime.utcnow()
  \<close>
  \<open>strptime\<close> raises \<open>TypeError\<close> for an argument that is not a \<open>str\<close>.
\<close>

definition parse_datetime :: "pyval \<Rightarrow> datetime \<Rightarrow> error + datetime" where
  "parse_datetime date_str now =
     (if truthy date_str
      then (case date_str of PStr s \<Rightarrow> strptime s | _ \<Rightarrow> Inl TypeError)
      else Inr now)"

text \<open>
  \<open>Base.__init__\<close>. The model types \<open>id\<close> as a string (the \<open>uuid4\<close> default and the
  annotation of \<open>get\<close>); a call whose \<open>id\<close> keyword is not a string is outside the
  model and reported as \<open>Unmodelled\<close>.
\<close>

definition Base_init :: "pydict \<Rightarrow> env \<Rightarrow> error + base" where
  "Base_init kwargs e =
     (case (case map_of kwargs ''id'' of
              None \<Rightarrow> Inr (uuid4 e)
            | Some (PStr s) \<Rightarrow> Inr s
            | Some _ \<Rightarrow> Inl (Unmodelled ''id is not a str'')) of
        Inl err \<Rightarrow> Inl err
      | Inr i \<Rightarrow>
     (case parse_datetime (dict_get kwargs ''created_at'') (utcnow_created e) of
        Inl err \<Rightarrow> Inl err
      | Inr c \<Rightarrow>
     (case parse_datetime (dict_get kwargs ''updated_at'') (utcnow_updated e) of
        Inl err \<Rightarrow> Inl err
      | Inr u \<Rightarrow> Inr \<lparr>obj_id = i, created_at = c, updated_at = u\<rparr>)))"

definition User_init :: "pydict \<Rightarrow> env \<Rightarrow> error + user" where
  "User_init kwargs e =
     (case Base_init kwargs e of
        Inl err \<Rightarrow> Inl err
      | Inr b \<Rightarrow>
          Inr \<lparr>obj_id = obj_id b, created_at = created_at b, updated_at = updated_at b,
               email = dict_get kwargs ''email'',
               u_password = dict_get kwargs ''_password'',
               first_name = dict_get kwargs ''first_name'',
               last_name = dict_get kwargs ''last_name''\<rparr>)"



text \<open>
  \<open>self.__dict__\<close>: the instance attributes in the order in which the constructors
  assign them.
\<close>

definition Base_dict :: "'a base_scheme \<Rightarrow> pydict" where
  "Base_dict self =
     [(''id'', PStr (obj_id self)),
      (''created_at'', PDatetime (created_at self)),
      (''updated_at'', PDatetime (updated_at self))]"

definition User_dict :: "user \<Rightarrow> pydict" where
  "User_dict self =
     Base_dict self @
     [(''email'', email self), (''_password'', u_password self),
      (''first_name'', first_name self), (''last_name'', last_name self)]"


text \<open>
  \<^verbatim>\<open>
  def to_json(self, for_serialization=False):
      result = {}
      for key, value in self.__dict__.items():
          if not for_serialization and key.startswith('_'):
              continue
          result[key] = (value.strftime(TIMESTAMP_FORMAT)
                         if isinstance(value, datetime) else value)
      return result
  \<close>
  The first argument is \<open>self.__dict__\<close>.
\<close>

definition startswith :: "string \<Rightarrow> string \<Rightarrow> bool" where
  "startswith s p = (take (length p) s = p)"

definition json_value :: "pyval \<Rightarrow> pyval" where
  "json_value v = (case v of PDatetime d \<Rightarrow> PStr (strftime d) | _ \<Rightarrow> v)"

fun to_json_loop :: "pydict \<Rightarrow> bool \<Rightarrow> pydict \<Rightarrow> pydict" where
  "to_json_loop [] for_serialization result = result"
| "to_json_loop ((key, v) # items) for_serialization result =
     (if \<not> for_serialization \<and> startswith key ''_''
      then to_json_loop items for_serialization result
      else to_json_loop items for_serialization (AList.update key (json_value v) result))"

definition to_json :: "pydict \<Rightarrow> bool \<Rightarrow> pydict" where
  "to_json self_dict for_serialization = to_json_loop self_dict for_serialization []"

subsection \<open>The class dictionary and its file\<close>

text \<open>
  \<open>DATA[s_class]\<close> maps ids to the objects of one class, and \<open>.db_<class>.json\<close>
  holds a JSON object that maps each id to the object's field map; \<open>db_file\<close> is
  \<open>None\<close> while the file does not exist. \<open>json.dump\<close> followed by \<open>json.load\<close> gives
  back the same JSON value, so the file is modelled by the value it holds.
  The store of a class exists once \<open>__init__\<close> or \<open>load_from_file\<close> has run for it.

  The methods of \<open>Base\<close> reach the subclass through \<open>self.__dict__\<close>, \<open>cls(**kwargs)\<close>
  and \<open>getattr\<close>; the model passes these as the arguments \<open>dict_of\<close>, \<open>init\<close> and
  \<open>ga\<close>.
\<close>

record 'o store =
  DATA :: "(string \<times> 'o) list"
  db_file :: "(string \<times> pydict) list option"

definition save_to_file :: "('o \<Rightarrow> pydict) \<Rightarrow> 'o store \<Rightarrow> 'o store" where
  "save_to_file dict_of st =
     st\<lparr>db_file := Some (map (\<lambda>(i, obj). (i, to_json (dict_of obj) True)) (DATA st))\<rparr>"



text \<open>
  \<^verbatim>\<open>
  def save(self):
      self.updated_at = datetime.utcnow()
      DATA[s_class][self.id] = self
      self.__class__.save_to_file()
  \<close>
  \<open>now\<close> is the reading of the clock; the updated object is returned with the store.
\<close>

definition save ::
  "('a base_scheme \<Rightarrow> pydict) \<Rightarrow> datetime \<Rightarrow> 'a base_scheme \<Rightarrow> 'a base_scheme store \<Rightarrow>
   'a base_scheme \<times> 'a base_scheme store" where
  "save dict_of now self st =
     (let self' = self\<lparr>updated_at := now\<rparr>
      in (self', save_to_file dict_of (st\<lparr>DATA := AList.update (obj_id self') self' (DATA st)\<rparr>)))"

definition remove ::
  "('a base_scheme \<Rightarrow> pydict) \<Rightarrow> 'a base_scheme \<Rightarrow> 'a base_scheme store \<Rightarrow>
   'a base_scheme store" where
  "remove dict_of self st =
     (if dict_has (DATA st) (obj_id self)
      then save_to_file dict_of (st\<lparr>DATA := AList.delete (obj_id self) (DATA st)\<rparr>)
      else st)"

definition count :: "'o store \<Rightarrow> nat" where
  "count st = length (DATA st)"

definition get :: "'o store \<Rightarrow> string \<Rightarrow> 'o option" where
  "get st i = map_of (DATA st) i"

text \<open>
  \<^verbatim>\<open>
  def search(cls, attributes={}):
      def _search(obj):
          return all(getattr(obj, k) == v for k, v in attributes.items())
      return list(filter(_search, DATA[cls.__name__].values()))
  \<close>
  \<open>all\<close> stops at the first comparison that is false; \<open>getattr\<close> raises
  \<open>AttributeError\<close> for a name the object does not have, and the exception leaves
  \<open>search\<close>.
\<close>

fun search_match :: "('o \<Rightarrow> string \<Rightarrow> error + pyval) \<Rightarrow> pydict \<Rightarrow> 'o \<Rightarrow> error + bool" where
  "search_match ga [] obj = Inr True"
| "search_match ga ((k, v) # attributes) obj =
     (case ga obj k of
        Inl err \<Rightarrow> Inl err
      | Inr a \<Rightarrow> if py_eq a v then search_match ga attributes obj else Inr False)"

fun filter_objs :: "('o \<Rightarrow> error + bool) \<Rightarrow> 'o list \<Rightarrow> error + 'o list" where
  "filter_objs p [] = Inr []"
| "filter_objs p (obj # objs) =
     (case p obj of
        Inl err \<Rightarrow> Inl err
      | Inr b \<Rightarrow>
          (case filter_objs p objs of
             Inl err \<Rightarrow> Inl err
           | Inr rest \<Rightarrow> Inr (if b then obj # rest else rest)))"

definition search ::
  "('o \<Rightarrow> string \<Rightarrow> error + pyval) \<Rightarrow> pydict \<Rightarrow> 'o store \<Rightarrow> error + 'o list" where
  "search ga attributes st = filter_objs (search_match ga attributes) (map snd (DATA st))"

definition all_objs :: "('o \<Rightarrow> string \<Rightarrow> error + pyval) \<Rightarrow> 'o store \<Rightarrow> error + 'o list" where
  "all_objs ga st = search ga [] st"

text \<open>
  What the specification says \<open>search\<close> selects: the objects on which every attribute
  named in the map exists and compares equal to the given value.
\<close>

definition matches_all :: "('o \<Rightarrow> string \<Rightarrow> error + pyval) \<Rightarrow> pydict \<Rightarrow> 'o \<Rightarrow> bool" where
  "matches_all ga attributes obj =
     list_all (\<lambda>(k, v). case ga obj k of Inl err \<Rightarrow> False | Inr a \<Rightarrow> py_eq a v) attributes"

text \<open>
  \<open>getattr(user, name)\<close>: the property \<open>password\<close> of the class, then the instance
  attributes. The names of the methods that \<open>Base\<close> and \<open>User\<close> define are bound
  methods, and names that begin with two underscores may come from \<open>object\<close>; the
  model has no value for either and says so. Every other name raises
  \<open>AttributeError\<close>.
\<close>

definition method_names :: "string list" where
  "method_names =
     [''_parse_datetime'', ''to_json'', ''load_from_file'', ''save_to_file'', ''save'',
      ''remove'', ''count'', ''all'', ''get'', ''search'', ''is_valid_password'',
      ''display_name'']"

definition User_getattr :: "user \<Rightarrow> string \<Rightarrow> error + pyval" where
  "User_getattr self name =
     (if name = ''password'' then Inr (u_password self)
      else (case map_of (User_dict self) name of
              Some v \<Rightarrow> Inr v
            | None \<Rightarrow>
                if name \<in> set method_names \<or> startswith name ''__''
                then Inl (Unmodelled name)
                else Inl (AttributeError name)))"

text \<open>
  A sequence of \<open>save\<close> and \<open>remove\<close> calls on one entity; \<open>run_ops\<close> lists the state of
  the entity after each call.
\<close>

datatype store_op = Save datetime | Remove

fun apply_op ::
  "('a base_scheme \<Rightarrow> pydict) \<Rightarrow> store_op \<Rightarrow> 'a base_scheme \<times> 'a base_scheme store \<Rightarrow>
   'a base_scheme \<times> 'a base_scheme store" where
  "apply_op dict_of (Save now) (self, st) = save dict_of now self st"
| "apply_op dict_of Remove (self, st) = (self, remove dict_of self st)"

fun run_ops ::
  "('a base_scheme \<Rightarrow> pydict) \<Rightarrow> store_op list \<Rightarrow> 'a base_scheme \<times> 'a base_scheme store \<Rightarrow>
   ('a base_scheme \<times> 'a base_scheme store) list" where
  "run_ops dict_of [] s = []"
| "run_ops dict_of (op # ops) s = apply_op dict_of op s # run_ops dict_of ops (apply_op dict_of op s)"

fun clock_readings :: "store_op list \<Rightarrow> datetime list" where
  "clock_readings [] = []"
| "clock_readings (Save now # ops) = now # clock_readings ops"
| "clock_readings (Remove # ops) = clock_readings ops"

subsection \<open>What a reload gives back\<close>


definition to_the_second :: "datetime \<Rightarrow> datetime" where
  "to_the_second d = d\<lparr>microsecond := 0\<rparr>"






section \<open>The user views (\<open>api/v1/views/users.py\<close>)\<close>

text \<open>
  A response is a status code and the value given to \<open>jsonify\<close>. \<open>JError e\<close> is the
  body \<open>{'error': str(e)}\<close> of a caught exception. \<open>request.get_json()\<close> gives a JSON
  object or nothing: a body that is JSON but not an object is outside the model.
\<close>

datatype json_out = JObj pydict | JList "pydict list" | JError error

record response =
  status :: nat
  body :: json_out

definition not_found :: response where
  "not_found = \<lparr>status = 404, body = JObj [(''error'', PStr ''Not found'')]\<rparr>"

definition bad_request :: "error \<Rightarrow> response" where
  "bad_request e = \<lparr>status = 400, body = JError e\<rparr>"

text \<open>\<open>get_user_by_id\<close>; the route always supplies \<open>user_id\<close>. \<open>None\<close> is \<open>abort(404)\<close>.\<close>

definition get_user_by_id :: "user store \<Rightarrow> string \<Rightarrow> user option" where
  "get_user_by_id st uid = get st uid"

text \<open>\<open>GET /users\<close>: \<open>[user.to_json() for user in User.all()]\<close>.\<close>

definition view_all_users :: "user store \<Rightarrow> response" where
  "view_all_users st =
     (case all_objs User_getattr st of
        Inl err \<Rightarrow> \<lparr>status = 500, body = JError err\<rparr>
      | Inr users \<Rightarrow>
          \<lparr>status = 200, body = JList (map (\<lambda>u. to_json (User_dict u) False) users)\<rparr>)"

text \<open>
  \<open>GET /users/<user_id>\<close>. \<open>request.current_user\<close> is set by the request gate when it
  resolves an identity; where the gate returned early the attribute does not exist
  and reading it raises.
\<close>

datatype 'u attached = NotSet | IsSet "'u option"

definition view_one_user :: "user attached \<Rightarrow> user store \<Rightarrow> string \<Rightarrow> response" where
  "view_one_user cur st uid =
     (if uid = ''me''
      then (case cur of
              NotSet \<Rightarrow> \<lparr>status = 500, body = JError (AttributeError ''current_user'')\<rparr>
            | IsSet None \<Rightarrow> not_found
            | IsSet (Some u) \<Rightarrow> \<lparr>status = 200, body = JObj (to_json (User_dict u) False)\<rparr>)
      else (case get_user_by_id st uid of
              None \<Rightarrow> not_found
            | Some u \<Rightarrow> \<lparr>status = 200, body = JObj (to_json (User_dict u) False)\<rparr>))"

text \<open>
  \<open>POST /users\<close>:
  \<^verbatim>\<open>
  rj = request.get_json()
  if not rj: raise ValueError("Wrong format")
  if not rj.get("email"): raise ValueError("email missing")
  if not rj.get("password"): raise ValueError("password missing")
  user = User(email=rj.get("email"), password=rj.get("password"),
              first_name=rj.get("first_name"), last_name=rj.get("last_name"))
  user.save()
  return jsonify(user.to_json()), 201
  \<close>
  with every exception answered by status 400.
\<close>

definition create_user ::
  "pydict option \<Rightarrow> env \<Rightarrow> datetime \<Rightarrow> user store \<Rightarrow> response \<times> user store" where
  "create_user body_json e now st =
     (case body_json of
        None \<Rightarrow> (bad_request (ValueError ''Wrong format''), st)
      | Some rj \<Rightarrow>
          if rj = [] then (bad_request (ValueError ''Wrong format''), st)
          else if \<not> truthy (dict_get rj ''email'')
          then (bad_request (ValueError ''email missing''), st)
          else if \<not> truthy (dict_get rj ''password'')
          then (bad_request (ValueError ''password missing''), st)
          else
            (case User_init
                    [(''email'', dict_get rj ''email''),
                     (''password'', dict_get rj ''password''),
                     (''first_name'', dict_get rj ''first_name''),
                     (''last_name'', dict_get rj ''last_name'')] e of
               Inl err \<Rightarrow> (bad_request err, st)
             | Inr u \<Rightarrow>
                 (case save User_dict now u st of
                    (u', st') \<Rightarrow>
                      (\<lparr>status = 201, body = JObj (to_json (User_dict u') False)\<rparr>, st'))))"

text \<open>
  \<open>PUT /users/<user_id>\<close>:
  \<^verbatim>\<open>
  user = get_user_by_id(user_id)
  rj = request.get_json()
  if not rj: raise ValueError("Wrong format")
  if 'first_name' in rj: user.first_name = rj.get('first_name')
  if 'last_name' in rj: user.last_name = rj.get('last_name')
  user.save()
  return jsonify(user.to_json()), 200
  \<close>
  The object found under \<open>user_id\<close> is changed in place and \<open>save\<close> stores it under
  its own \<open>id\<close>; the model is that of a store whose objects lie under their own ids.
\<close>

definition update_user ::
  "pydict option \<Rightarrow> datetime \<Rightarrow> user store \<Rightarrow> string \<Rightarrow> response \<times> user store" where
  "update_user body_json now st uid =
     (case get_user_by_id st uid of
        None \<Rightarrow> (not_found, st)
      | Some u \<Rightarrow>
          (case body_json of
             None \<Rightarrow> (bad_request (ValueError ''Wrong format''), st)
           | Some rj \<Rightarrow>
               if rj = [] then (bad_request (ValueError ''Wrong format''), st)
               else
                 (let u1 = (if dict_has rj ''first_name''
                            then u\<lparr>first_name := dict_get rj ''first_name''\<rparr> else u);
                      u2 = (if dict_has rj ''last_name''
                            then u1\<lparr>last_name := dict_get rj ''last_name''\<rparr> else u1)
                  in (case save User_dict now u2 st of
                        (u3, st') \<Rightarrow>
                          (\<lparr>status = 200, body = JObj (to_json (User_dict u3) False)\<rparr>, st')))))"

section \<open>The request gate (\<open>api/v1/app.py\<close>, Session authentication)\<close>

text \<open>
  The authentication classes are not part of the sources at hand; the gate calls
  four methods of the configured strategy, which the model takes as a record of
  functions. \<open>auth\<close> is \<open>None\<close> when \<open>AUTH_TYPE\<close> names no strategy.
\<close>

record request =
  path :: string

record ('r, 'u) auth =
  require_auth :: "string \<Rightarrow> string list \<Rightarrow> bool"
  authorization_header :: "'r \<Rightarrow> pyval"
  session_cookie :: "'r \<Rightarrow> pyval"
  current_user :: "'r \<Rightarrow> 'u option"

datatype 'u gate = Proceed "'u attached" | Abort nat

definition excluded_list :: "string list" where
  "excluded_list =
     [''/api/v1/status/'', ''/api/v1/unauthorized/'', ''/api/v1/forbidden/'',
      ''/api/v1/auth_session/login/'']"

text \<open>
  \<^verbatim>\<open>
  if not auth: return
  if not auth.require_auth(request.path, excluded_list): return
  if not auth.authorization_header(request) and not auth.session_cookie(request):
      abort(401)
  request.current_user = auth.current_user(request)
  if not request.current_user: abort(403)
  \<close>
  \<open>Proceed\<close> carries what \<open>request.current_user\<close> holds when the handler runs.
\<close>

definition handle_auth ::
  "('a request_scheme, 'u) auth option \<Rightarrow> 'a request_scheme \<Rightarrow> 'u gate" where
  "handle_auth auth_opt req =
     (case auth_opt of
        None \<Rightarrow> Proceed NotSet
      | Some a \<Rightarrow>
          if \<not> require_auth a (path req) excluded_list then Proceed NotSet
          else if \<not> truthy (authorization_header a req) \<and> \<not> truthy (session_cookie a req)
          then Abort 401
          else (case current_user a req of
                  None \<Rightarrow> Abort 403
                | Some u \<Rightarrow> Proceed (IsSet (Some u))))"

section \<open>Sample values\<close>

text \<open>Concrete values at which the theorems below are instantiated.\<close>

definition sample_time :: datetime where
  "sample_time = \<lparr>year = 2024, month = 2, day = 29, hour = 23, minute = 59, second = 58,
                   microsecond = 123456\<rparr>"

definition later_time :: datetime where
  "later_time = \<lparr>year = 2024, month = 3, day = 1, hour = 0, minute = 0, second = 7,
                  microsecond = 15\<rparr>"

definition sample_user :: user where
  "sample_user =
     \<lparr>obj_id = ''u1'', created_at = sample_time, updated_at = sample_time,
      email = PStr ''a@b.com'', u_password = PStr ''0f'', first_name = PStr ''Ann'',
      last_name = PNone\<rparr>"

text \<open>A stand-in for the digest primitive: the bytes of the text itself.\<close>

definition sample_digest :: "string \<Rightarrow> byte list" where
  "sample_digest s = map (\<lambda>c. of_nat (of_char c)) s"

definition sample_env :: env where
  "sample_env = \<lparr>uuid4 = ''u2'', utcnow_created = sample_time, utcnow_updated = sample_time\<rparr>"

definition empty_store :: "user store" where
  "empty_store = \<lparr>DATA = [], db_file = None\<rparr>"

definition sample_store :: "user store" where
  "sample_store = \<lparr>DATA = [(''u1'', sample_user)], db_file = None\<rparr>"

text \<open>
  A strategy that requires authentication outside the excluded paths, always sees an
  \<open>Authorization\<close> header and never resolves a user; and the same strategy seeing an
  empty header.
\<close>

definition sample_auth :: "(request, user) auth" where
  "sample_auth =
     \<lparr>require_auth = (\<lambda>p ex. p \<notin> set ex),
      authorization_header = (\<lambda>r. PStr ''Basic abc''),
      session_cookie = (\<lambda>r. PNone),
      current_user = (\<lambda>r. None)\<rparr>"

definition empty_header_auth :: "(request, user) auth" where
  "empty_header_auth = sample_auth\<lparr>authorization_header := (\<lambda>r. PStr [])\<rparr>"

definition other_user :: user where
  "other_user =
     \<lparr>obj_id = ''u7'', created_at = sample_time, updated_at = later_time,
      email = PStr ''c@d.com'', u_password = PNone, first_name = PNone,
      last_name = PStr ''Lee''\<rparr>"

definition two_user_store :: "user store" where
  "two_user_store = \<lparr>DATA = [(''u1'', sample_user), (''u7'', other_user)], db_file = None\<rparr>"









definition future_user :: user where
  "future_user =
     \<lparr>obj_id = ''u7'', created_at = sample_time, updated_at = to_the_second later_time,
      email = PNone, u_password = PNone, first_name = PNone, last_name = PNone\<rparr>"

section \<open>Display name: the two implementations\<close>

lemma display_name_same: "display_name_basic fmt u = display_name fmt u"
  by (simp add: display_name_basic_def display_name_def py_or_def)

text \<open>
  C2, as stated, asks for values of \<open>first_name\<close>, \<open>last_name\<close> and \<open>email\<close> on which the
  two \<open>display_name\<close> implementations return different names. There are none.
\<close>

theorem display_names_never_differ:
  "\<not> (\<exists>fmt u. display_name_basic fmt u \<noteq> display_name fmt u)"
  by (simp add: display_name_same)

text \<open>
  C2, amended: for every combination of \<open>first_name\<close>, \<open>last_name\<close> and \<open>email\<close> values the
  Basic-authentication and the Session-authentication \<open>display_name\<close> return the same
  value; the two differ in the order of their tests only.
\<close>

theorem display_name_implementations_agree:
  "display_name_basic fmt u = display_name fmt u"
  by (rule display_name_same)

theorem display_name_implementations_agree_witness:
  "display_name_basic (\<lambda>v. ''x'') sample_user = display_name (\<lambda>v. ''x'') sample_user"
  by (rule display_name_implementations_agree)

section \<open>Passwords\<close>

text \<open>
  C8: assigning a value that is not a string to the \<open>password\<close> property stores \<open>None\<close>
  as the hash and raises nothing, in both User modules, and afterwards
  \<open>is_valid_password\<close> is false for every candidate.
\<close>

theorem non_string_password_clears_hash:
  assumes "\<not> is_str v"
  shows "u_password (password_setter H u v) = PNone
    \<and> is_valid_password H (password_setter H u v) c = False
    \<and> u_password (password_setter_basic H u v) = PNone
    \<and> is_valid_password_basic H (password_setter_basic H u v) c = False"
  using assms
  by (cases v)
    (simp_all add: password_setter_def is_valid_password_def password_setter_basic_def
      is_valid_password_basic_def)

theorem non_string_password_clears_hash_witness:
  "u_password (password_setter sample_digest sample_user (PInt 5)) = PNone
    \<and> is_valid_password sample_digest (password_setter sample_digest sample_user (PInt 5))
        (PStr ''0f'') = False
    \<and> u_password (password_setter_basic sample_digest sample_user (PInt 5)) = PNone
    \<and> is_valid_password_basic sample_digest
        (password_setter_basic sample_digest sample_user (PInt 5)) (PStr ''0f'') = False"
  by (rule non_string_password_clears_hash) simp

subsection \<open>The hexadecimal digest determines the digest\<close>

lemma hex_chars_distinct: "distinct ''0123456789abcdef''"
  by simp

lemma hex_digit_inj: "a < 16 \<Longrightarrow> b < 16 \<Longrightarrow> hex_digit a = hex_digit b \<Longrightarrow> a = b"
  using nth_eq_iff_index_eq [OF hex_chars_distinct, of a b]
  by (simp add: hex_digit_def)

lemma hex_digit_lower: "lower_char (hex_digit n) = hex_digit n"
proof -
  have "\<forall>c \<in> set ''0123456789abcdef''. lower_char c = c"
    by (simp add: lower_char_def)
  moreover have "hex_digit n \<in> set ''0123456789abcdef''"
    unfolding hex_digit_def by (rule nth_mem) simp
  ultimately show ?thesis by blast
qed

lemma hex_byte_inj: "hex_byte a = hex_byte b \<Longrightarrow> a = b"
proof -
  assume e: "hex_byte a = hex_byte b"
  have la: "unat a < 256" and lb: "unat b < 256"
    using unsigned_less [of a] unsigned_less [of b] by simp_all
  from e have "unat a div 16 = unat b div 16" "unat a mod 16 = unat b mod 16"
    using la lb by (auto simp: hex_byte_def dest!: hex_digit_inj [rotated 2])
  then have "unat a = unat b"
    by (metis div_mult_mod_eq)
  then show ?thesis by (simp add: word_unat_eq_iff)
qed

lemma hexdigest_inj: "hexdigest xs = hexdigest ys \<Longrightarrow> xs = ys"
proof (induction xs arbitrary: ys)
  case Nil
  then show ?case by (cases ys) (simp_all add: hexdigest_def hex_byte_def)
next
  case (Cons x xs)
  then show ?case
  proof (cases ys)
    case Nil
    with Cons.prems show ?thesis by (simp add: hexdigest_def hex_byte_def)
  next
    case (Cons y ys')
    with Cons.prems have "hex_byte x = hex_byte y" "hexdigest xs = hexdigest ys'"
      by (simp_all add: hexdigest_def hex_byte_def)
    with Cons.IH Cons show ?thesis by (simp add: hex_byte_inj)
  qed
qed

lemma lower_hexdigest: "lower (hexdigest xs) = hexdigest xs"
  by (induction xs) (simp_all add: lower_def hexdigest_def hex_byte_def hex_digit_lower)

lemma hash_password_inj: "hash_password H a = hash_password H b \<longleftrightarrow> H a = H b"
  by (auto simp: hash_password_def lower_hexdigest dest: hexdigest_inj)

text \<open>
  C4: for every string \<open>P\<close>, after \<open>P\<close> is assigned to the \<open>password\<close> property,
  \<open>is_valid_password(P)\<close> is true, and \<open>is_valid_password(P')\<close> is false for every string
  \<open>P'\<close> whose digest differs from that of \<open>P\<close>. \<open>H\<close> is the digest of the encoded text.
\<close>

theorem password_check_after_set:
  "is_valid_password H (password_setter H u (PStr P)) (PStr P) = True
    \<and> (H P' \<noteq> H P \<longrightarrow> is_valid_password H (password_setter H u (PStr P)) (PStr P') = False)"
  by (simp add: is_valid_password_def password_setter_def hash_password_inj)

theorem password_check_after_set_witness:
  "is_valid_password sample_digest (password_setter sample_digest sample_user (PStr ''secret''))
      (PStr ''secret'') = True
    \<and> sample_digest ''wrong'' \<noteq> sample_digest ''secret''
    \<and> is_valid_password sample_digest (password_setter sample_digest sample_user (PStr ''secret''))
        (PStr ''wrong'') = False"
  using password_check_after_set [of sample_digest sample_user "''secret''" "''wrong''"]
  by (simp add: sample_digest_def)

section \<open>Creating a user\<close>

text \<open>
  C1 says that a user created by \<open>create_user\<close> from an email and a password accepts
  that password. The view passes the password under the keyword \<open>password\<close>, which
  \<open>User.__init__\<close> does not read (it reads \<open>_password\<close>), and never calls the setter:
  whenever the request is accepted, the stored user has no hash and
  \<open>is_valid_password\<close> is false for every candidate, the password itself included.
\<close>

theorem create_user_stores_no_hash:
  assumes "truthy (dict_get rj ''email'')" "truthy (dict_get rj ''password'')"
  shows "case create_user (Some rj) e now st of
           (resp, st') \<Rightarrow> status resp = 201 \<and>
             (case get st' (uuid4 e) of None \<Rightarrow> False
              | Some u \<Rightarrow> u_password u = PNone \<and> is_valid_password H u c = False)"
proof -
  from assms(1) have ne: "rj \<noteq> []" by (auto simp: dict_get_def)
  show ?thesis
    using assms ne
    by (simp add: create_user_def User_init_def Base_init_def parse_datetime_def dict_get_def
        save_def save_to_file_def get_def AList.update_conv' is_valid_password_def Let_def)
qed

theorem create_user_stores_no_hash_witness:
  "case create_user (Some [(''email'', PStr ''a@b.com''), (''password'', PStr ''secret'')])
          sample_env later_time empty_store of
     (resp, st') \<Rightarrow> status resp = 201 \<and>
       (case get st' ''u2'' of None \<Rightarrow> False
        | Some u \<Rightarrow> u_password u = PNone
            \<and> is_valid_password sample_digest u (PStr ''secret'') = False)"
  using create_user_stores_no_hash
    [where rj = "[(''email'', PStr ''a@b.com''), (''password'', PStr ''secret'')]"
       and e = sample_env and now = later_time and st = empty_store
       and H = sample_digest and c = "PStr ''secret''"]
  by (simp add: dict_get_def sample_env_def)

section \<open>The request gate\<close>

text \<open>
  C3: with no strategy configured, or on a path the strategy does not require
  authentication for, the gate lets the request pass. On a path that requires
  authentication it answers 401 exactly when neither an \<open>Authorization\<close> header nor a
  session cookie is presented, and otherwise 403 exactly when the strategy resolves no
  user; otherwise the resolved user is attached. A credential is presented when the
  strategy's accessor returns a value that tests true (a non-empty string), which is
  the test the gate makes.
\<close>

theorem gate_classification:
  "handle_auth None req = Proceed NotSet \<and>
   (\<not> require_auth a (path req) excluded_list \<longrightarrow> handle_auth (Some a) req = Proceed NotSet) \<and>
   (require_auth a (path req) excluded_list \<longrightarrow>
     ((handle_auth (Some a) req = Abort 401) =
        (\<not> truthy (authorization_header a req) \<and> \<not> truthy (session_cookie a req))) \<and>
     ((handle_auth (Some a) req = Abort 403) =
        ((truthy (authorization_header a req) \<or> truthy (session_cookie a req)) \<and>
         current_user a req = None)) \<and>
     (\<forall>u. (handle_auth (Some a) req = Proceed (IsSet (Some u))) =
        ((truthy (authorization_header a req) \<or> truthy (session_cookie a req)) \<and>
         current_user a req = Some u)))"
  by (auto simp: handle_auth_def split: option.splits)

theorem gate_classification_witness:
  "require_auth sample_auth (path \<lparr>path = ''/api/v1/users''\<rparr>) excluded_list \<and>
   truthy (authorization_header sample_auth \<lparr>path = ''/api/v1/users''\<rparr>) \<and>
   handle_auth (Some sample_auth) \<lparr>path = ''/api/v1/users''\<rparr> = Abort 403 \<and>
   handle_auth (Some empty_header_auth) \<lparr>path = ''/api/v1/users''\<rparr> = Abort 401 \<and>
   handle_auth (Some sample_auth) \<lparr>path = ''/api/v1/status/''\<rparr> = Proceed NotSet"
  using gate_classification [of "\<lparr>path = ''/api/v1/users''\<rparr>" sample_auth]
    gate_classification [of "\<lparr>path = ''/api/v1/status/''\<rparr>" sample_auth]
    gate_classification [of "\<lparr>path = ''/api/v1/users''\<rparr>" empty_header_auth]
  by (simp add: sample_auth_def empty_header_auth_def excluded_list_def handle_auth_def)

section \<open>Serialisation for the views\<close>

lemma to_json_loop_keys:
  "fst ` set (to_json_loop d False r) \<subseteq> fst ` set r \<union> {k \<in> fst ` set d. \<not> startswith k ''_''}"
proof (induction d arbitrary: r)
  case Nil
  then show ?case by simp
next
  case (Cons kv d)
  obtain k v where kv: "kv = (k, v)" by (cases kv)
  show ?case
    using Cons.IH [of r] Cons.IH [of "AList.update k (json_value v) r"]
    by (auto simp: kv AList.dom_update)
qed

lemma to_json_public_keys: "k \<in> fst ` set (to_json d False) \<Longrightarrow> \<not> startswith k ''_''"
  using to_json_loop_keys [of d "[]"] by (auto simp: to_json_def)

lemma startswith_password: "startswith ''_password'' ''_''"
  by (simp add: startswith_def)

lemma filter_objs_all: "filter_objs (\<lambda>obj. Inr True) xs = Inr xs"
  by (induction xs) simp_all

lemma search_match_empty: "search_match ga [] = (\<lambda>obj. Inr True)"
  by (rule ext) simp

lemma search_empty: "search ga [] st = Inr (map snd (DATA st))"
  by (simp add: search_def search_match_empty filter_objs_all)

lemma view_all_users_eq:
  "view_all_users st =
     \<lparr>status = 200, body = JList (map (\<lambda>u. to_json (User_dict u) False) (map snd (DATA st)))\<rparr>"
  by (simp add: view_all_users_def all_objs_def search_empty)

text \<open>
  C9: \<open>to_json\<close> without the \<open>for_serialization\<close> flag returns no attribute whose name
  starts with an underscore, so \<open>_password\<close> is not among the keys of the JSON of a
  user, and no object in the answers of \<open>GET /users\<close> and \<open>GET /users/<id>\<close> has a key
  that starts with an underscore.
\<close>

theorem public_json_hides_private_attributes:
  "(\<forall>k \<in> fst ` set (to_json d False). \<not> startswith k ''_'') \<and>
   ''_password'' \<notin> fst ` set (to_json (User_dict u) False) \<and>
   (\<forall>js. body (view_all_users st) = JList js \<longrightarrow>
      (\<forall>j \<in> set js. \<forall>k \<in> fst ` set j. \<not> startswith k ''_'')) \<and>
   (\<forall>j. body (view_one_user cur st uid) = JObj j \<longrightarrow>
      (\<forall>k \<in> fst ` set j. \<not> startswith k ''_''))"
proof -
  have 1: "\<forall>k \<in> fst ` set (to_json d False). \<not> startswith k ''_''" for d
    using to_json_public_keys by blast
  have 2: "''_password'' \<notin> fst ` set (to_json (User_dict u) False)"
    using 1 startswith_password by blast
  have 3: "\<forall>js. body (view_all_users st) = JList js \<longrightarrow>
      (\<forall>j \<in> set js. \<forall>k \<in> fst ` set j. \<not> startswith k ''_'')"
    using 1 by (auto simp: view_all_users_eq)
  have 4: "\<forall>j. body (view_one_user cur st uid) = JObj j \<longrightarrow>
      (\<forall>k \<in> fst ` set j. \<not> startswith k ''_'')"
    using 1
    by (auto simp: view_one_user_def not_found_def startswith_def
        split: attached.splits option.splits)
  from 1 2 3 4 show ?thesis by blast
qed

theorem public_json_hides_private_attributes_witness:
  "''_password'' \<notin> fst ` set (to_json (User_dict sample_user) False) \<and>
   map fst (to_json (User_dict sample_user) False) =
     [''id'', ''created_at'', ''updated_at'', ''email'', ''first_name'', ''last_name''] \<and>
   map fst (to_json (User_dict sample_user) True) =
     [''id'', ''created_at'', ''updated_at'', ''email'', ''_password'', ''first_name'',
      ''last_name''] \<and>
   body (view_all_users sample_store) = JList [to_json (User_dict sample_user) False] \<and>
   body (view_one_user NotSet sample_store ''u1'') = JObj (to_json (User_dict sample_user) False)"
  using public_json_hides_private_attributes
    [where d = "User_dict sample_user" and u = sample_user and st = sample_store and cur = NotSet
       and uid = "''u1''"]
  by (simp add: to_json_def User_dict_def Base_dict_def startswith_def
      view_all_users_eq view_one_user_def get_user_by_id_def get_def sample_store_def)

section \<open>Search\<close>

lemma search_match_ok:
  "\<forall>k \<in> fst ` set A. \<exists>a. ga obj k = Inr a \<Longrightarrow>
   search_match ga A obj = Inr (matches_all ga A obj)"
proof (induction A)
  case Nil
  then show ?case by (simp add: matches_all_def)
next
  case (Cons kv A)
  obtain k v where kv: "kv = (k, v)" by (cases kv)
  from Cons.prems obtain a where a: "ga obj k = Inr a" by (auto simp: kv)
  from Cons.prems have "\<forall>k \<in> fst ` set A. \<exists>a. ga obj k = Inr a" by simp
  with Cons.IH have "search_match ga A obj = Inr (matches_all ga A obj)" by blast
  with a show ?case by (simp add: kv matches_all_def)
qed

lemma filter_objs_ok:
  "\<forall>x \<in> set xs. p x = Inr (q x) \<Longrightarrow> filter_objs p xs = Inr (filter q xs)"
  by (induction xs) simp_all

text \<open>
  C6, as stated, holds for every attribute map. A map that names an attribute the
  stored objects do not have makes \<open>getattr\<close> raise, and \<open>search\<close> returns nothing: here
  one user is stored and the map is \<open>{"nickname": "x"}\<close>.
\<close>

theorem search_unknown_attribute_raises:
  "search User_getattr [(''nickname'', PStr ''x'')] sample_store
     = Inl (AttributeError ''nickname'')"
  by (simp add: search_def sample_store_def User_getattr_def User_dict_def Base_dict_def
      method_names_def startswith_def)

text \<open>
  C6, amended: for every attribute map \<open>A\<close> and every class's stored objects such that
  each stored object has every attribute named in \<open>A\<close>, \<open>search(A)\<close> returns exactly the
  stored objects, in stored order, for which every attribute named in \<open>A\<close> compares
  equal to the given value; and \<open>search\<close> with the empty map returns all stored
  instances.
\<close>

theorem search_returns_matching_objects:
  assumes "\<forall>obj \<in> snd ` set (DATA st). \<forall>k \<in> fst ` set A. \<exists>a. ga obj k = Inr a"
  shows "search ga A st = Inr (filter (matches_all ga A) (map snd (DATA st)))
     \<and> search ga [] st = Inr (map snd (DATA st))"
proof -
  have "\<forall>obj \<in> set (map snd (DATA st)). search_match ga A obj = Inr (matches_all ga A obj)"
    using assms search_match_ok [of A ga] by auto
  then have "search ga A st = Inr (filter (matches_all ga A) (map snd (DATA st)))"
    unfolding search_def by (rule filter_objs_ok)
  then show ?thesis by (simp add: search_empty)
qed

theorem search_returns_matching_objects_witness:
  "search User_getattr [(''email'', PStr ''a@b.com'')] two_user_store = Inr [sample_user]
   \<and> search User_getattr [] two_user_store = Inr [sample_user, other_user]"
  using search_returns_matching_objects
    [where st = two_user_store and A = "[(''email'', PStr ''a@b.com'')]" and ga = User_getattr]
  by (simp add: two_user_store_def User_getattr_def User_dict_def Base_dict_def matches_all_def
      sample_user_def other_user_def)

section \<open>Saving\<close>

lemma save_id:
  "obj_id (fst (save d now self st)) = obj_id self \<and>
   updated_at (fst (save d now self st)) = now"
  by (simp add: save_def Let_def)

lemma run_ops_id:
  "\<forall>s \<in> set (run_ops d ops (self, st)). obj_id (fst s) = obj_id self"
proof (induction ops arbitrary: self st)
  case Nil
  then show ?case by simp
next
  case (Cons op ops)
  show ?case
  proof (cases op)
    case (Save t)
    obtain self' st' where s: "save d t self st = (self', st')" by (cases "save d t self st")
    with save_id [of d t self st] have "obj_id self' = obj_id self" by simp
    with Cons.IH [of self' st'] s Save show ?thesis by simp
  next
    case Remove
    with Cons.IH [of self "remove d self st"] show ?thesis by simp
  qed
qed

lemma stored_under_id_save:
  "\<forall>k obj. map_of (DATA st) k = Some obj \<longrightarrow> obj_id obj = k \<Longrightarrow>
   \<forall>k obj. map_of (DATA (snd (save d now self st))) k = Some obj \<longrightarrow> obj_id obj = k"
  by (auto simp: save_def save_to_file_def Let_def AList.update_conv' split: if_splits)

lemma stored_under_id_remove:
  "\<forall>k obj. map_of (DATA st) k = Some obj \<longrightarrow> obj_id obj = k \<Longrightarrow>
   \<forall>k obj. map_of (DATA (remove d self st)) k = Some obj \<longrightarrow> obj_id obj = k"
  by (auto simp: remove_def save_to_file_def AList.delete_conv' split: if_splits)

lemma run_ops_stored_under_id:
  "\<forall>k obj. map_of (DATA st) k = Some obj \<longrightarrow> obj_id obj = k \<Longrightarrow>
   \<forall>s \<in> set (run_ops d ops (self, st)). \<forall>k obj. get (snd s) k = Some obj \<longrightarrow> obj_id obj = k"
proof (induction ops arbitrary: self st)
  case Nil
  then show ?case by simp
next
  case (Cons op ops)
  show ?case
  proof (cases op)
    case (Save t)
    obtain self' st' where s: "save d t self st = (self', st')" by (cases "save d t self st")
    with stored_under_id_save [OF Cons.prems, of d t self]
    have inv: "\<forall>k obj. map_of (DATA st') k = Some obj \<longrightarrow> obj_id obj = k" by simp
    with Cons.IH [of st' self'] s Save show ?thesis by (simp add: get_def)
  next
    case Remove
    from stored_under_id_remove [OF Cons.prems, of d self]
    have inv: "\<forall>k obj. map_of (DATA (remove d self st)) k = Some obj \<longrightarrow> obj_id obj = k" .
    with Cons.IH [of "remove d self st" self] Remove show ?thesis by (simp add: get_def)
  qed
qed

lemma run_ops_saves:
  "map (\<lambda>s. updated_at (fst s)) (run_ops d (map Save ts) (self, st)) = ts"
proof (induction ts arbitrary: self st)
  case Nil
  then show ?case by simp
next
  case (Cons t ts)
  obtain self' st' where s: "save d t self st = (self', st')" by (cases "save d t self st")
  with save_id [of d t self st] have "updated_at self' = t" by simp
  with Cons.IH [of self' st'] s show ?case by simp
qed

lemma future_user_constructed:
  "User_init [(''id'', PStr ''u7''), (''updated_at'', PStr ''2024-03-01T00:00:07'')] sample_env =
     Inr future_user"
  by (simp add: User_init_def Base_init_def dict_get_def parse_datetime_def
      strptime_def year_field_def num_field_def day_field_def is_digit_def decimal_def
      digit_val_def dt_valid_def days_in_month_def is_leap_def future_user_def later_time_def
      to_the_second_def sample_env_def)

text \<open>
  C7, as stated, lets \<open>updated_at\<close> never decrease across saves. \<open>Base.__init__\<close> takes
  \<open>updated_at\<close> from the keyword of that name and \<open>save\<close> overwrites it with the reading
  of the clock: a user constructed with \<open>updated_at="2024-03-01T00:00:07"\<close> while the
  clock reads 2024-02-29 23:59:58 and saved at that same reading ends with an earlier
  \<open>updated_at\<close> than it had.
\<close>

theorem save_can_decrease_updated_at:
  "User_init [(''id'', PStr ''u7''), (''updated_at'', PStr ''2024-03-01T00:00:07'')] sample_env =
     Inr future_user \<and>
   utcnow_created sample_env = sample_time \<and>
   \<not> dt_le (updated_at future_user)
          (updated_at (fst (save User_dict sample_time future_user empty_store)))"
  using future_user_constructed
  by (simp add: save_def Let_def dt_le_def dt_key_def future_user_def to_the_second_def
      later_time_def sample_time_def sample_env_def)

text \<open>
  C7, amended: \<open>save\<close> leaves the id of the entity unchanged and sets \<open>updated_at\<close> to
  the reading of the clock taken by that call. Over any sequence of \<open>save\<close> and \<open>remove\<close>
  calls on an entity its id stays the one it had. Across any sequence of saves the
  successive values of \<open>updated_at\<close> are exactly the successive readings of the clock,
  so \<open>updated_at\<close> never decreases exactly when no reading lies before the reading of
  the save before it, or before the \<open>updated_at\<close> the entity started with.
\<close>

theorem save_keeps_id_and_refreshes_updated_at:
  "obj_id (fst (save d now self st)) = obj_id self \<and>
   updated_at (fst (save d now self st)) = now \<and>
   (\<forall>s \<in> set (run_ops d ops (self, st)). obj_id (fst s) = obj_id self) \<and>
   map (\<lambda>s. updated_at (fst s)) (run_ops d (map Save ts) (self, st)) = ts \<and>
   (sorted_wrt dt_le
      (updated_at self # map (\<lambda>s. updated_at (fst s)) (run_ops d (map Save ts) (self, st))) \<longleftrightarrow>
    sorted_wrt dt_le (updated_at self # ts))"
proof (intro conjI)
  show "obj_id (fst (save d now self st)) = obj_id self"
    using save_id [of d now self st] by (rule conjunct1)
  show "updated_at (fst (save d now self st)) = now"
    using save_id [of d now self st] by (rule conjunct2)
  show "\<forall>s \<in> set (run_ops d ops (self, st)). obj_id (fst s) = obj_id self"
    by (rule run_ops_id)
  show "map (\<lambda>s. updated_at (fst s)) (run_ops d (map Save ts) (self, st)) = ts"
    by (rule run_ops_saves)
  show "sorted_wrt dt_le
      (updated_at self # map (\<lambda>s. updated_at (fst s)) (run_ops d (map Save ts) (self, st))) \<longleftrightarrow>
    sorted_wrt dt_le (updated_at self # ts)"
    by (simp only: run_ops_saves)
qed

lemma sample_ops_ids:
  "map (\<lambda>s. obj_id (fst s)) (run_ops User_dict [Save later_time, Remove] (sample_user, sample_store))
     = [''u1'', ''u1'']"
  by (simp add: save_def Let_def sample_user_def)

lemma sample_saves_unsorted:
  "\<not> sorted_wrt dt_le (updated_at sample_user # [later_time, sample_time])"
  by (simp add: dt_le_def dt_key_def sample_time_def later_time_def sample_user_def)

theorem save_keeps_id_and_refreshes_updated_at_witness:
  "map (\<lambda>s. obj_id (fst s)) (run_ops User_dict [Save later_time, Remove] (sample_user, sample_store))
     = [''u1'', ''u1''] \<and>
   map (\<lambda>s. updated_at (fst s))
     (run_ops User_dict (map Save [later_time, sample_time]) (sample_user, sample_store))
     = [later_time, sample_time] \<and>
   \<not> sorted_wrt dt_le
     (updated_at sample_user #
      map (\<lambda>s. updated_at (fst s))
        (run_ops User_dict (map Save [later_time, sample_time]) (sample_user, sample_store)))"
  using save_keeps_id_and_refreshes_updated_at
    [where d = User_dict and self = sample_user and st = sample_store
       and ops = "[Save later_time, Remove]" and now = later_time
       and ts = "[later_time, sample_time]"]
    sample_ops_ids sample_saves_unsorted
  by blast

section \<open>Updating a user\<close>

text \<open>
  C10: for a user stored under its id and a JSON body that is a non-empty object,
  \<open>PUT /users/<id>\<close> answers 200 and changes only \<open>first_name\<close>, \<open>last_name\<close> and
  \<open>updated_at\<close> of that user: its id, email, \<open>created_at\<close> and password hash are
  unchanged, a name that the body does not contain keeps its value, and no other
  stored user changes.
\<close>

theorem update_user_frame:
  assumes "get st uid = Some u" "obj_id u = uid" "rj \<noteq> []"
  shows "case update_user (Some rj) now st uid of
           (resp, st') \<Rightarrow> status resp = 200 \<and>
             (case get st' uid of None \<Rightarrow> False
              | Some u' \<Rightarrow>
                  obj_id u' = obj_id u \<and> email u' = email u \<and> created_at u' = created_at u \<and>
                  u_password u' = u_password u \<and> updated_at u' = now \<and>
                  first_name u' = (if dict_has rj ''first_name'' then dict_get rj ''first_name''
                                   else first_name u) \<and>
                  last_name u' = (if dict_has rj ''last_name'' then dict_get rj ''last_name''
                                  else last_name u)) \<and>
             (\<forall>k. k \<noteq> uid \<longrightarrow> get st' k = get st k)"
  using assms
  by (simp add: update_user_def get_user_by_id_def get_def save_def save_to_file_def Let_def
      AList.update_conv')

lemma sample_update:
  "update_user (Some [(''first_name'', PStr ''Bob'')]) later_time two_user_store ''u1'' =
     (\<lparr>status = 200,
       body = JObj (to_json (User_dict
                (sample_user\<lparr>updated_at := later_time, first_name := PStr ''Bob''\<rparr>)) False)\<rparr>,
      save_to_file User_dict
        \<lparr>DATA = [(''u1'', sample_user\<lparr>updated_at := later_time, first_name := PStr ''Bob''\<rparr>),
                 (''u7'', other_user)],
         db_file = None\<rparr>)"
  by (simp add: update_user_def get_user_by_id_def get_def save_def Let_def
      two_user_store_def sample_user_def dict_has_def dict_get_def)

theorem update_user_frame_witness:
  "case update_user (Some [(''first_name'', PStr ''Bob'')]) later_time two_user_store ''u1'' of
     (resp, st') \<Rightarrow> status resp = 200 \<and>
       get st' ''u1'' = Some (sample_user\<lparr>updated_at := later_time, first_name := PStr ''Bob''\<rparr>) \<and>
       get st' ''u7'' = Some other_user"
  using update_user_frame [where st = two_user_store and uid = "''u1''" and u = sample_user
      and rj = "[(''first_name'', PStr ''Bob'')]" and now = later_time]
  by (simp add: sample_update get_def save_to_file_def)

section \<open>Writing the file and loading it again\<close>

subsection \<open>Reading back what \<open>strftime\<close> wrote\<close>

lemma of_char_digit_char: "(of_char (digit_char n) :: nat) = 48 + n mod 10"
proof -
  have "48 + n mod 10 < 256" using mod_less_divisor [of 10 n] by linarith
  then show ?thesis by (simp add: digit_char_def)
qed



lemma digit_char_not_sep:
  "digit_char n \<noteq> CHR ''-''" "digit_char n \<noteq> CHR ''T''" "digit_char n \<noteq> CHR ''t''"
  "digit_char n \<noteq> CHR '':''" "digit_char n \<noteq> CHR '' ''"
proof -
  have neq: "digit_char n \<noteq> c" if "(of_char c :: nat) < 48 \<or> 57 < (of_char c :: nat)" for c
  proof
    assume "digit_char n = c"
    then have "(of_char c :: nat) = 48 + n mod 10" by (simp add: of_char_digit_char [symmetric])
    moreover have "n mod 10 < 10" by simp
    ultimately show False using that by linarith
  qed
  show "digit_char n \<noteq> CHR ''-''" by (rule neq) simp
  show "digit_char n \<noteq> CHR ''T''" by (rule neq) simp
  show "digit_char n \<noteq> CHR ''t''" by (rule neq) simp
  show "digit_char n \<noteq> CHR '':''" by (rule neq) simp
  show "digit_char n \<noteq> CHR '' ''" by (rule neq) simp
qed

















lemma pad2_no_sep:
  "\<forall>c \<in> set (pad2 n). \<not> c = CHR ''-''"
  "\<forall>c \<in> set (pad2 n). \<not> (c = CHR ''T'' \<or> c = CHR ''t'')"
  "\<forall>c \<in> set (pad2 n). \<not> c = CHR '':''"
  by (simp_all add: pad2_def digit_char_not_sep)
















subsection \<open>The round trip\<close>













end
